theory Spec2Isabelle
  imports Main
begin

section \<open>Data model (src/lib/types.ts)\<close>

text \<open>
  The response of a write operation: \<open>{success: boolean, message: string}\<close>.
\<close>

record DatabaseResponse =
  success :: bool
  message :: string

text \<open>
  The response of a read operation is a tagged union on \<open>success\<close>: with
  \<open>success: true\<close> it carries \<open>message\<close> and \<open>data\<close>, with \<open>success: false\<close> only
  \<open>message\<close>.
\<close>

datatype 'a DatabaseDataResponse =
    DataSuccess string 'a
  | DataFailure string

text \<open>
  \<open>BaseUserRecord\<close> and \<open>UserRecord\<close>. The handlers fill \<open>firstName\<close> and \<open>lastName\<close>
  from \<open>data.get(..)\<close> through an unchecked cast, so at run time they hold \<open>null\<close> when
  the form lacks the field: the model keeps that as \<open>None\<close>. The field \<open>id\<close> is written
  \<open>id_user\<close> (\<open>id\<close> is the identity function of HOL).
\<close>

record BaseUserRecord =
  firstName :: "string option"
  lastName :: "string option"
  email :: string
  hashedPassword :: string

record UserRecord = BaseUserRecord +
  id_user :: int

text \<open>
  A row of the table \<open>cookie\<close>: \<open>{id: string, userID: number, expireTime: number}\<close>.
  The field \<open>id\<close> is written \<open>id_cookie\<close>. Times are epoch milliseconds; the numbers
  of JavaScript are exact on integers below \<open>2 ^ 53\<close>, and the model takes them as
  integers.
\<close>

record cookie =
  id_cookie :: string
  userID :: int
  expireTime :: int

text \<open>What a call can throw.\<close>

datatype error =
    TypeError string
  | SqliteError string
  | Argon2Error string

section \<open>The database handle (better-sqlite3)\<close>

text \<open>
  \<open>this.db\<close> is a handle on an SQLite file whose schema is created outside of
  \<open>database.ts\<close>. The services use six prepared statements; the handle is modelled as
  the record of what each statement does on a database state \<open>'db\<close>. A statement that
  throws leaves the database as it was (a statement of SQLite is atomic), so an error
  carries no state. A write returns the \<open>changes\<close> count of its \<open>run\<close> and the new
  state.

  \<^item> \<open>users_get_by_email\<close>: \<open>Select * from users WHERE email = ?\<close>, \<open>get\<close>
  \<^item> \<open>users_insert\<close>: \<open>Insert into users (firstName, lastName, email, hashedPassword,
    deleted) VALUES (..)\<close>, \<open>run\<close>; the last argument is the value of \<open>deleted\<close>
  \<^item> \<open>cookie_insert\<close>: \<open>Insert into cookie (id, userID, expireTime) values (..)\<close>, \<open>run\<close>
  \<^item> \<open>cookie_delete\<close>: \<open>DELETE FROM cookie WHERE id = ?\<close>, \<open>run\<close>
  \<^item> \<open>cookie_get\<close>: \<open>Select * from cookie WHERE id = ?\<close>, \<open>get\<close>
  \<^item> \<open>cookie_update\<close>: \<open>Update cookie SET expireTime = ? WHERE id = ?\<close>, \<open>run\<close>
\<close>

record 'db Database =
  users_get_by_email :: "'db \<Rightarrow> string \<Rightarrow> error + UserRecord option"
  users_insert :: "'db \<Rightarrow> BaseUserRecord \<Rightarrow> int \<Rightarrow> error + nat \<times> 'db"
  cookie_insert :: "'db \<Rightarrow> cookie \<Rightarrow> error + nat \<times> 'db"
  cookie_delete :: "'db \<Rightarrow> string \<Rightarrow> error + nat \<times> 'db"
  cookie_get :: "'db \<Rightarrow> string \<Rightarrow> error + cookie option"
  cookie_update :: "'db \<Rightarrow> int \<Rightarrow> string \<Rightarrow> error + nat \<times> 'db"

section \<open>AuthService (src/lib/db/database.ts)\<close>

definition getUserByEmail ::
  "'db Database \<Rightarrow> 'db \<Rightarrow> string \<Rightarrow> error + UserRecord DatabaseDataResponse" where
  "getUserByEmail D db email' =
     (case users_get_by_email D db email' of
        Inl e \<Rightarrow> Inl e
      | Inr result \<Rightarrow>
          (case result of
             Some r \<Rightarrow> Inr (DataSuccess ''User was retrieved successfully'' r)
           | None \<Rightarrow> Inr (DataFailure ''Couldn't find user'')))"

definition createUser ::
  "'db Database \<Rightarrow> 'db \<Rightarrow> BaseUserRecord \<Rightarrow> error + DatabaseResponse \<times> 'db" where
  "createUser D db user =
     (case getUserByEmail D db (email user) of
        Inl e \<Rightarrow> Inl e
      | Inr (DataSuccess m existingUser) \<Rightarrow>
          Inr (\<lparr>success = False, message = ''Email already in use''\<rparr>, db)
      | Inr (DataFailure m) \<Rightarrow>
          (case users_insert D db
                  \<lparr>firstName = firstName user, lastName = lastName user,
                   email = email user, hashedPassword = hashedPassword user\<rparr> 0 of
             Inl e \<Rightarrow> Inl e
           | Inr (changes, db') \<Rightarrow>
               if changes = 1
               then Inr (\<lparr>success = True, message = ''User was created successfully''\<rparr>, db')
               else Inr (\<lparr>success = False, message = ''User creation failed''\<rparr>, db')))"

text \<open>\<open>now\<close> is the value of \<open>Date.now()\<close> at the call.\<close>

definition createCookie ::
  "'db Database \<Rightarrow> 'db \<Rightarrow> string \<Rightarrow> int \<Rightarrow> int \<Rightarrow> error + DatabaseResponse \<times> 'db" where
  "createCookie D db cookieID userID' now =
     (case cookie_insert D db
             \<lparr>id_cookie = cookieID, userID = userID', expireTime = now + 60 * 60 * 1000\<rparr> of
        Inl e \<Rightarrow> Inl e
      | Inr (changes, db') \<Rightarrow>
          if changes = 1
          then Inr (\<lparr>success = True, message = ''Successful cookie creation''\<rparr>, db')
          else Inr (\<lparr>success = False, message = ''Failed cookie creation''\<rparr>, db'))"

definition removeCookie ::
  "'db Database \<Rightarrow> 'db \<Rightarrow> string \<Rightarrow> error + DatabaseResponse \<times> 'db" where
  "removeCookie D db id' =
     (case cookie_delete D db id' of
        Inl e \<Rightarrow> Inl e
      | Inr (changes, db') \<Rightarrow>
          if changes = 1
          then Inr (\<lparr>success = True, message = ''Successful cookie deletion''\<rparr>, db')
          else Inr (\<lparr>success = False, message = ''Failed cookie deletion''\<rparr>, db'))"

definition getCookie ::
  "'db Database \<Rightarrow> 'db \<Rightarrow> string \<Rightarrow> error + cookie DatabaseDataResponse" where
  "getCookie D db userID' =
     (case cookie_get D db userID' of
        Inl e \<Rightarrow> Inl e
      | Inr result \<Rightarrow>
          (case result of
             Some r \<Rightarrow> Inr (DataSuccess ''Found cookie successfully'' r)
           | None \<Rightarrow> Inr (DataFailure ''Failed to find cookie'')))"

definition updateCookie ::
  "'db Database \<Rightarrow> 'db \<Rightarrow> string \<Rightarrow> int \<Rightarrow> error + DatabaseResponse \<times> 'db" where
  "updateCookie D db cookieID now =
     (case cookie_update D db (now + 1000 * 30 * 60) cookieID of
        Inl e \<Rightarrow> Inl e
      | Inr (changes, db') \<Rightarrow>
          if changes = 1
          then Inr (\<lparr>success = True, message = ''Updated cookie successfully''\<rparr>, db')
          else Inr (\<lparr>success = False, message = ''Failed to update cookie''\<rparr>, db'))"

section \<open>The form actions (src/routes/(marketing)/login/+page.server.ts)\<close>

text \<open>
  \<open>String.prototype.toLowerCase\<close> on the characters a \<open>string\<close> of HOL holds, the code
  points below 256: the capital letters are \<open>A\<close> to \<open>Z\<close> (65 to 90) and the capital
  letters of Latin-1 (192 to 222 without the multiplication sign 215); each moves up
  by 32.
\<close>

definition toLowerCase_char :: "char \<Rightarrow> char" where
  "toLowerCase_char c =
     (let n = (of_char c :: nat)
      in if (65 \<le> n \<and> n \<le> 90) \<or> (192 \<le> n \<and> n \<le> 222 \<and> n \<noteq> 215)
         then char_of (n + 32) else c)"

definition toLowerCase :: "string \<Rightarrow> string" where
  "toLowerCase s = map toLowerCase_char s"

text \<open>
  \<open>generateRandomString(random, alphabet, length)\<close> of the package
  \<open>@oslojs/crypto/random\<close> appends, \<open>length\<close> times, the character
  \<open>alphabet[generateRandomInteger(random, alphabet.length)]\<close>. The reader \<open>random\<close>
  (here \<open>crypto.getRandomValues\<close>) is modelled by the integers it leads to: \<open>random i\<close>
  is the integer drawn at round \<open>i\<close>. The package promises an integer below
  \<open>alphabet.length\<close>; indexing a string of JavaScript out of range gives \<open>undefined\<close>,
  which \<open>+=\<close> appends as the text "undefined".
\<close>

definition generateRandomString :: "(nat \<Rightarrow> nat) \<Rightarrow> string \<Rightarrow> nat \<Rightarrow> string" where
  "generateRandomString random alphabet length' =
     concat (map (\<lambda>i. if random i < length alphabet then [alphabet ! random i]
                       else ''undefined'')
                 [0..<length'])"

text \<open>
  The submitted form: \<open>data.get(name)\<close> is the field's text, or \<open>null\<close> when the form has
  no such field.
\<close>

type_synonym FormData = "string \<Rightarrow> string option"

text \<open>One call \<open>cookies.set(name, value, {path})\<close>.\<close>

record SetCookie =
  cookie_name :: string
  cookie_value :: string
  cookie_path :: string

text \<open>
  How an action ends: an exception leaves it (\<open>Thrown\<close>), \<open>redirect(status, location)\<close>
  leaves it with a redirect (in SvelteKit 2 \<open>redirect\<close> throws by itself),
  \<open>return fail(status, {error})\<close> returns an action failure, or the body runs to its end
  and returns \<open>undefined\<close>.
\<close>

datatype Outcome =
    Thrown error
  | Redirect nat string
  | ActionFailure nat string
  | Returned_undefined

text \<open>
  The action \<open>login\<close>. \<open>argon2_verify\<close> stands for \<open>argon2.verify(hash, password)\<close>, which
  resolves to a boolean or rejects; the password is \<open>null\<close> when the form lacks it. The
  result is the outcome, the calls of \<open>cookies.set\<close> made, and the database after the
  action.
\<close>

definition login ::
  "'db Database \<Rightarrow> (string \<Rightarrow> string option \<Rightarrow> error + bool) \<Rightarrow> (nat \<Rightarrow> nat) \<Rightarrow> int \<Rightarrow>
   'db \<Rightarrow> FormData \<Rightarrow> Outcome \<times> SetCookie list \<times> 'db" where
  "login D argon2_verify random now db data =
     (case data ''email'' of
        None \<Rightarrow> (Thrown (TypeError ''Cannot read properties of null (reading 'toLowerCase')''), [], db)
      | Some e \<Rightarrow>
          let email' = toLowerCase e;
              password = data ''password''
          in (case getUserByEmail D db email' of
                Inl err \<Rightarrow> (Thrown err, [], db)
              | Inr (DataFailure m) \<Rightarrow>
                  (ActionFailure 422 ''Incorrect username or password'', [], db)
              | Inr (DataSuccess m user) \<Rightarrow>
                  (case argon2_verify (hashedPassword user) password of
                     Inl err \<Rightarrow> (Thrown err, [], db)
                   | Inr False \<Rightarrow>
                       (ActionFailure 422 ''Incorrect username or password'', [], db)
                   | Inr True \<Rightarrow>
                       let cookieID = generateRandomString random ''ABCDEFGHIJKLMNOPQRSTUVWXYZ'' 20
                       in (case createCookie D db cookieID (id_user user) now of
                             Inl err \<Rightarrow> (Thrown err, [], db)
                           | Inr (r, db') \<Rightarrow>
                               (Redirect 302 ''/home'',
                                [\<lparr>cookie_name = ''sessionID'', cookie_value = cookieID,
                                  cookie_path = ''/''\<rparr>],
                                db')))))"

text \<open>
  The action \<open>signup\<close>. \<open>argon2_hash\<close> stands for \<open>argon2.hash(password, {timeCost})\<close>. The
  action does not take \<open>cookies\<close>: it makes no call of \<open>cookies.set\<close>.
\<close>

definition signup ::
  "'db Database \<Rightarrow> (string option \<Rightarrow> nat \<Rightarrow> error + string) \<Rightarrow>
   'db \<Rightarrow> FormData \<Rightarrow> Outcome \<times> SetCookie list \<times> 'db" where
  "signup D argon2_hash db data =
     (let email' = data ''email'';
          password = data ''password''
      in (case argon2_hash password 2 of
            Inl err \<Rightarrow> (Thrown err, [], db)
          | Inr passwordHash \<Rightarrow>
              (case email' of
                 None \<Rightarrow>
                   (Thrown (TypeError ''Cannot read properties of null (reading 'toLowerCase')''),
                    [], db)
               | Some e \<Rightarrow>
                   let newUserData =
                         \<lparr>firstName = data ''firstName'', lastName = data ''lastName'',
                          email = toLowerCase e, hashedPassword = passwordHash\<rparr>
                   in (case createUser D db newUserData of
                         Inl err \<Rightarrow> (Thrown err, [], db)
                       | Inr (result, db') \<Rightarrow>
                           if \<not> success result
                           then (ActionFailure 422 (message result), [], db')
                           else (Returned_undefined, [], db')))))"

section \<open>An SQLite database with the documented schema\<close>

text \<open>
  Modelled from the spec: the schema and the SQLite engine are not in the sources. The
  spec (section 6) and the README give a table \<open>users\<close> with \<open>id\<close> (primary key,
  generated), \<open>firstName\<close>, \<open>lastName\<close>, \<open>email\<close> (unique), \<open>hashedPassword\<close>, and a table of
  sessions (\<open>cookie\<close> in the statements) with \<open>id\<close> (primary key), \<open>userID\<close> (foreign key
  to \<open>users\<close>) and \<open>expireTime\<close>. Text compares bytewise (the default collation of
  SQLite), a statement that breaks a constraint throws, and \<open>changes\<close> counts the rows
  written. The column \<open>deleted\<close> is written with 0 and never read, so the rows do not
  keep it. The state is the two tables, in insertion order.
\<close>

record sqlite_db =
  users_table :: "UserRecord list"
  cookie_table :: "cookie list"

text \<open>
  Modelled from the spec: the \<open>id\<close> that \<open>users\<close> generates, the largest one plus 1, and
  1 in an empty table.
\<close>

definition next_rowid :: "UserRecord list \<Rightarrow> int" where
  "next_rowid rows = (case map id_user rows of [] \<Rightarrow> 1 | x # xs \<Rightarrow> fold max xs x + 1)"

text \<open>
  Modelled from the spec: \<open>Select * from users WHERE email = ?\<close> with \<open>get\<close>, the first row
  whose email is the parameter, byte for byte.
\<close>

definition sqlite_users_get_by_email :: "sqlite_db \<Rightarrow> string \<Rightarrow> error + UserRecord option" where
  "sqlite_users_get_by_email db e = Inr (find (\<lambda>u. email u = e) (users_table db))"

text \<open>
  Modelled from the spec: the \<open>Insert into users\<close>; \<open>email\<close> is unique.
\<close>

definition sqlite_users_insert ::
  "sqlite_db \<Rightarrow> BaseUserRecord \<Rightarrow> int \<Rightarrow> error + nat \<times> sqlite_db" where
  "sqlite_users_insert db user deleted =
     (if email user \<in> set (map email (users_table db))
      then Inl (SqliteError ''UNIQUE constraint failed: users.email'')
      else Inr (1, db\<lparr>users_table := users_table db @
                  [\<lparr>firstName = firstName user, lastName = lastName user,
                    email = email user, hashedPassword = hashedPassword user,
                    id_user = next_rowid (users_table db)\<rparr>]\<rparr>))"

text \<open>
  Modelled from the spec: the \<open>Insert into cookie\<close>; \<open>id\<close> is the primary key and
  \<open>userID\<close> refers to a row of \<open>users\<close>.
\<close>

definition sqlite_cookie_insert :: "sqlite_db \<Rightarrow> cookie \<Rightarrow> error + nat \<times> sqlite_db" where
  "sqlite_cookie_insert db c =
     (if id_cookie c \<in> set (map id_cookie (cookie_table db))
      then Inl (SqliteError ''UNIQUE constraint failed: cookie.id'')
      else if userID c \<notin> set (map id_user (users_table db))
      then Inl (SqliteError ''FOREIGN KEY constraint failed'')
      else Inr (1, db\<lparr>cookie_table := cookie_table db @ [c]\<rparr>))"

text \<open>
  Modelled from the spec: \<open>DELETE FROM cookie WHERE id = ?\<close>; \<open>changes\<close> is the number of
  rows deleted.
\<close>

definition sqlite_cookie_delete :: "sqlite_db \<Rightarrow> string \<Rightarrow> error + nat \<times> sqlite_db" where
  "sqlite_cookie_delete db i =
     Inr (length (filter (\<lambda>c. id_cookie c = i) (cookie_table db)),
          db\<lparr>cookie_table := filter (\<lambda>c. id_cookie c \<noteq> i) (cookie_table db)\<rparr>)"

text \<open>
  Modelled from the spec: \<open>Select * from cookie WHERE id = ?\<close> with \<open>get\<close>.
\<close>

definition sqlite_cookie_get :: "sqlite_db \<Rightarrow> string \<Rightarrow> error + cookie option" where
  "sqlite_cookie_get db i = Inr (find (\<lambda>c. id_cookie c = i) (cookie_table db))"

text \<open>
  Modelled from the spec: \<open>Update cookie SET expireTime = ? WHERE id = ?\<close>; \<open>changes\<close> is
  the number of rows matched.
\<close>

definition sqlite_cookie_update :: "sqlite_db \<Rightarrow> int \<Rightarrow> string \<Rightarrow> error + nat \<times> sqlite_db" where
  "sqlite_cookie_update db t i =
     Inr (length (filter (\<lambda>c. id_cookie c = i) (cookie_table db)),
          db\<lparr>cookie_table :=
                map (\<lambda>c. if id_cookie c = i then c\<lparr>expireTime := t\<rparr> else c) (cookie_table db)\<rparr>)"

text \<open>
  Modelled from the spec: the handle on that database.
\<close>

definition sqlite :: "sqlite_db Database" where
  "sqlite =
     \<lparr>users_get_by_email = sqlite_users_get_by_email,
      users_insert = sqlite_users_insert,
      cookie_insert = sqlite_cookie_insert,
      cookie_delete = sqlite_cookie_delete,
      cookie_get = sqlite_cookie_get,
      cookie_update = sqlite_cookie_update\<rparr>"

section \<open>Example data\<close>

text \<open>
  A toy password scheme for the examples: the hash of a password is the password after
  a \<open>#\<close>; hashing or verifying \<open>null\<close> throws.
\<close>

definition example_hash :: "string option \<Rightarrow> nat \<Rightarrow> error + string" where
  "example_hash password timeCost =
     (case password of
        None \<Rightarrow> Inl (Argon2Error ''password must be a string'')
      | Some p \<Rightarrow> Inr (CHR ''#'' # p))"

definition example_verify :: "string \<Rightarrow> string option \<Rightarrow> error + bool" where
  "example_verify digest password =
     (case password of
        None \<Rightarrow> Inl (Argon2Error ''password must be a string'')
      | Some p \<Rightarrow> Inr (digest = CHR ''#'' # p))"

definition example_user :: UserRecord where
  "example_user =
     \<lparr>firstName = Some ''Ann'', lastName = Some ''Lee'', email = ''a@b.com'',
      hashedPassword = ''#1234'', id_user = 1\<rparr>"

definition example_session :: cookie where
  "example_session = \<lparr>id_cookie = ''QWERTYUIOPASDFGHJKLZ'', userID = 1, expireTime = 5000\<rparr>"

definition example_db :: sqlite_db where
  "example_db = \<lparr>users_table = [example_user], cookie_table = []\<rparr>"

definition example_db_session :: sqlite_db where
  "example_db_session = \<lparr>users_table = [example_user], cookie_table = [example_session]\<rparr>"

definition example_random :: "nat \<Rightarrow> nat" where
  "example_random i = (7 * i + 3) mod 26"

definition example_form :: "string \<Rightarrow> string \<Rightarrow> FormData" where
  "example_form e p = map_of [(''email'', e), (''password'', p)]"

text \<open>
  An example of a database on which \<open>createCookie\<close> takes its \<open>else\<close> branch: the
  SQLite database above behind a schema whose table \<open>cookie\<close> ignores an \<open>INSERT\<close> (as a
  \<open>BEFORE INSERT\<close> trigger with \<open>RAISE(IGNORE)\<close> does). The statement runs, writes no
  row and reports \<open>changes = 0\<close>.
\<close>

definition sqlite_insert_ignored :: "sqlite_db Database" where
  "sqlite_insert_ignored = sqlite\<lparr>cookie_insert := (\<lambda>db c. Inr (0, db))\<rparr>"

text \<open>
  A database that already holds a session under the id that \<open>example_random\<close> leads to.
\<close>

definition example_db_collision :: sqlite_db where
  "example_db_collision =
     \<lparr>users_table = [example_user],
      cookie_table = [\<lparr>id_cookie = ''DKRYFMTAHOVCJQXELSZG'', userID = 1, expireTime = 5000\<rparr>]\<rparr>"

section \<open>Lemmas on lookups in a table\<close>

lemma find_distinct_key:
  "distinct (map f xs) \<Longrightarrow> x \<in> set xs \<Longrightarrow> find (\<lambda>y. f y = f x) xs = Some x"
  by (induction xs) auto

lemma find_append_fresh:
  "k \<notin> set (map f xs) \<Longrightarrow> find (\<lambda>y. f y = k) (xs @ ys) = find (\<lambda>y. f y = k) ys"
  by (induction xs) auto

lemma find_None_fresh:
  "find (\<lambda>y. f y = k) xs = None \<longleftrightarrow> k \<notin> set (map f xs)"
  by (induction xs) auto

lemma find_map_update:
  "distinct (map id_cookie cs) \<Longrightarrow> c \<in> set cs \<Longrightarrow>
   find (\<lambda>y. id_cookie y = id_cookie c)
        (map (\<lambda>y. if id_cookie y = id_cookie c then y\<lparr>expireTime := t\<rparr> else y) cs) =
     Some (c\<lparr>expireTime := t\<rparr>)"
  by (induction cs) (auto simp add: rev_image_eqI)

lemma count_distinct_key:
  "distinct (map f xs) \<Longrightarrow> x \<in> set xs \<Longrightarrow> length (filter (\<lambda>y. f y = f x) xs) = 1"
proof (induction xs)
  case Nil
  then show ?case by simp
next
  case (Cons a xs)
  have none: "f a \<notin> f ` set xs \<Longrightarrow> filter (\<lambda>y. f y = f a) xs = []"
    by (auto simp add: filter_empty_conv image_iff)
  show ?case
  proof (cases "x = a")
    case True
    then show ?thesis using Cons.prems none by simp
  next
    case False
    then have "x \<in> set xs" using Cons.prems by simp
    moreover have "f a \<noteq> f x" using Cons.prems \<open>x \<in> set xs\<close> by auto
    ultimately show ?thesis using Cons by simp
  qed
qed

section \<open>The services on the SQLite database\<close>

lemma getUserByEmail_sqlite:
  "getUserByEmail sqlite db q =
     (case find (\<lambda>u. email u = q) (users_table db) of
        Some r \<Rightarrow> Inr (DataSuccess ''User was retrieved successfully'' r)
      | None \<Rightarrow> Inr (DataFailure ''Couldn't find user''))"
  by (simp add: getUserByEmail_def sqlite_def sqlite_users_get_by_email_def)

lemma getCookie_sqlite_fresh_append:
  "cid \<notin> set (map id_cookie (cookie_table db)) \<Longrightarrow> id_cookie c = cid \<Longrightarrow>
   getCookie sqlite (db\<lparr>cookie_table := cookie_table db @ [c]\<rparr>) cid =
     Inr (DataSuccess ''Found cookie successfully'' c)"
  using find_append_fresh [of cid id_cookie "cookie_table db" "[c]"]
  by (simp add: getCookie_def sqlite_def sqlite_cookie_get_def)

lemma createCookie_sqlite:
  "cid \<notin> set (map id_cookie (cookie_table db)) \<Longrightarrow> uid \<in> set (map id_user (users_table db)) \<Longrightarrow>
   createCookie sqlite db cid uid now =
     Inr (\<lparr>success = True, message = ''Successful cookie creation''\<rparr>,
          db\<lparr>cookie_table := cookie_table db @
                [\<lparr>id_cookie = cid, userID = uid, expireTime = now + 3600000\<rparr>]\<rparr>)"
  by (simp add: createCookie_def sqlite_def sqlite_cookie_insert_def)

lemma createUser_sqlite:
  "createUser sqlite db user =
     (if email user \<in> set (map email (users_table db))
      then Inr (\<lparr>success = False, message = ''Email already in use''\<rparr>, db)
      else Inr (\<lparr>success = True, message = ''User was created successfully''\<rparr>,
                db\<lparr>users_table := users_table db @
                     [\<lparr>firstName = firstName user, lastName = lastName user,
                       email = email user, hashedPassword = hashedPassword user,
                       id_user = next_rowid (users_table db)\<rparr>]\<rparr>))"
proof (cases "find (\<lambda>u. email u = email user) (users_table db)")
  case None
  then have "email user \<notin> set (map email (users_table db))"
    using find_None_fresh [of email "email user" "users_table db"] by simp
  then show ?thesis
    using None
    by (simp add: createUser_def getUserByEmail_def sqlite_def sqlite_users_get_by_email_def
        sqlite_users_insert_def)
next
  case (Some u)
  then have "email user \<in> set (map email (users_table db))"
    using find_None_fresh [of email "email user" "users_table db"] by simp
  then show ?thesis
    using Some
    by (simp add: createUser_def getUserByEmail_def sqlite_def sqlite_users_get_by_email_def)
qed

lemma createUser_sqlite_cookie_table:
  "createUser sqlite db user = Inr (r, db') \<Longrightarrow> cookie_table db' = cookie_table db"
  unfolding createUser_sqlite by (auto split: if_splits)

lemma signup_sets_no_cookie: "fst (snd (signup D argon2_hash db data)) = []"
  by (simp add: signup_def Let_def split: sum.split option.split prod.split)

lemma signup_sqlite_cookie_table:
  "cookie_table (snd (snd (signup sqlite argon2_hash db data))) = cookie_table db"
proof (cases "argon2_hash (data ''password'') 2")
  case (Inl err)
  then show ?thesis by (simp add: signup_def)
next
  case (Inr passwordHash)
  show ?thesis
  proof (cases "data ''email''")
    case None
    then show ?thesis using Inr by (simp add: signup_def)
  next
    case (Some e)
    let ?u = "\<lparr>firstName = data ''firstName'', lastName = data ''lastName'',
               email = toLowerCase e, hashedPassword = passwordHash\<rparr>"
    show ?thesis
    proof (cases "createUser sqlite db ?u")
      case (Inl err)
      then show ?thesis using Inr Some by (simp add: signup_def)
    next
      case inr: (Inr p)
      obtain r db' where p: "p = (r, db')" by (cases p)
      have "cookie_table db' = cookie_table db"
        using inr p createUser_sqlite_cookie_table by simp
      then show ?thesis using Inr Some inr p by (simp add: signup_def)
    qed
  qed
qed

section \<open>The session id\<close>

lemma generateRandomString_in_range:
  "\<forall>i<n. random i < length alphabet \<Longrightarrow>
   generateRandomString random alphabet n = map (\<lambda>i. alphabet ! random i) [0..<n]"
  by (induction n) (simp_all add: generateRandomString_def)

lemma alphabet_card: "card (set ''ABCDEFGHIJKLMNOPQRSTUVWXYZ'') = 26"
proof -
  have "distinct ''ABCDEFGHIJKLMNOPQRSTUVWXYZ''" by simp
  then have "card (set ''ABCDEFGHIJKLMNOPQRSTUVWXYZ'') = length ''ABCDEFGHIJKLMNOPQRSTUVWXYZ''"
    by (rule distinct_card)
  then show ?thesis by simp
qed

lemma generateRandomString_onto:
  assumes "set s \<subseteq> set alphabet"
  shows "\<exists>random. (\<forall>i<length s. random i < length alphabet)
           \<and> generateRandomString random alphabet (length s) = s"
proof -
  have "\<forall>i<length s. \<exists>j. j < length alphabet \<and> alphabet ! j = s ! i"
    using assms by (metis in_set_conv_nth nth_mem subsetD)
  then have "\<forall>i. \<exists>j. i < length s \<longrightarrow> j < length alphabet \<and> alphabet ! j = s ! i"
    by blast
  then obtain random where
    r: "\<forall>i. i < length s \<longrightarrow> random i < length alphabet \<and> alphabet ! random i = s ! i"
    by metis
  then have "generateRandomString random alphabet (length s) =
      map (\<lambda>i. alphabet ! random i) [0..<length s]"
    by (intro generateRandomString_in_range) simp
  also have "\<dots> = map (\<lambda>i. s ! i) [0..<length s]"
    using r by simp
  also have "\<dots> = s"
    by (rule map_nth)
  finally show ?thesis using r by blast
qed

lemma login_cookie_value:
  "\<forall>c \<in> set (fst (snd (login D argon2_verify random now db data))).
     cookie_name c = ''sessionID''
     \<and> cookie_value c = generateRandomString random ''ABCDEFGHIJKLMNOPQRSTUVWXYZ'' 20"
  by (simp add: login_def Let_def
      split: option.split sum.split DatabaseDataResponse.split bool.split prod.split)

lemma generateRandomString_draws:
  assumes "set ds \<subseteq> {..<length alphabet}" and "length ds = n"
  shows "generateRandomString ((!) ds) alphabet n = map ((!) alphabet) ds"
proof -
  have "\<forall>i<n. ds ! i < length alphabet"
    using assms by (auto simp add: subset_iff)
  then have "generateRandomString ((!) ds) alphabet n = map (\<lambda>i. alphabet ! (ds ! i)) [0..<n]"
    by (rule generateRandomString_in_range)
  also have "\<dots> = map ((!) alphabet) (map ((!) ds) [0..<length ds])"
    by (simp add: assms(2))
  also have "\<dots> = map ((!) alphabet) ds"
    by (simp only: map_nth)
  finally show ?thesis .
qed

lemma generateRandomString_inj:
  assumes "distinct alphabet"
    and "set ds \<subseteq> {..<length alphabet}" and "length ds = n"
    and "set ds' \<subseteq> {..<length alphabet}" and "length ds' = n"
    and "generateRandomString ((!) ds) alphabet n = generateRandomString ((!) ds') alphabet n"
  shows "ds = ds'"
proof -
  have "inj_on ((!) alphabet) {..<length alphabet}"
    using assms(1) by (simp add: inj_on_nth)
  then have "inj_on ((!) alphabet) (set ds \<union> set ds')"
    using assms(2,4) by (auto intro: inj_on_subset)
  moreover have "map ((!) alphabet) ds = map ((!) alphabet) ds'"
    using assms(6) by (simp only: generateRandomString_draws [OF assms(2,3)]
        generateRandomString_draws [OF assms(4,5)])
  ultimately show ?thesis
    by (simp only: inj_on_map_eq_map)
qed

lemma draws_card: "card {ds::nat list. set ds \<subseteq> {..<26} \<and> length ds = 20} = 26 ^ 20"
  using card_lists_length_eq [of "{..<26::nat}" 20] by simp

lemma draws_finite: "finite {ds::nat list. set ds \<subseteq> {..<26} \<and> length ds = 20}"
  using finite_lists_length_eq [of "{..<26::nat}" 20] by simp

lemma guess_card:
  "card {ds. (set ds \<subseteq> {..<26} \<and> length ds = 20)
            \<and> generateRandomString ((!) ds) ''ABCDEFGHIJKLMNOPQRSTUVWXYZ'' 20 = g} \<le> 1"
proof -
  let ?A = "''ABCDEFGHIJKLMNOPQRSTUVWXYZ''"
  let ?S = "{ds. (set ds \<subseteq> {..<26} \<and> length ds = 20) \<and> generateRandomString ((!) ds) ?A 20 = g}"
  have d: "distinct ?A" by simp
  have len: "length ?A = 26" by simp
  have fin: "finite ?S"
    by (rule finite_subset [OF _ draws_finite]) blast
  have "a = b" if "a \<in> ?S" and "b \<in> ?S" for a b
  proof (rule generateRandomString_inj [OF d, of a 20 b])
    show "set a \<subseteq> {..<length ?A}" using that(1) by (simp only: len mem_Collect_eq)
    show "length a = 20" using that(1) by (simp only: mem_Collect_eq)
    show "set b \<subseteq> {..<length ?A}" using that(2) by (simp only: len mem_Collect_eq)
    show "length b = 20" using that(2) by (simp only: mem_Collect_eq)
    show "generateRandomString ((!) a) ?A 20 = generateRandomString ((!) b) ?A 20"
      using that by (simp only: mem_Collect_eq)
  qed
  then have "\<forall>a\<in>?S. \<forall>b\<in>?S. a = b" by blast
  then have "card ?S \<le> Suc 0"
    using fin by (simp only: card_le_Suc0_iff_eq)
  then show ?thesis by simp
qed

lemma login_guess_card:
  "card {ds. (set ds \<subseteq> {..<26} \<and> length ds = 20)
            \<and> fst (snd (login D argon2_verify ((!) ds) now db data)) =
                [\<lparr>cookie_name = ''sessionID'', cookie_value = g, cookie_path = ''/''\<rparr>]}
     * 2 ^ 94
   \<le> card {ds::nat list. set ds \<subseteq> {..<26} \<and> length ds = 20}"
proof -
  let ?A = "''ABCDEFGHIJKLMNOPQRSTUVWXYZ''"
  let ?L = "{ds. (set ds \<subseteq> {..<26} \<and> length ds = 20)
            \<and> fst (snd (login D argon2_verify ((!) ds) now db data)) =
                [\<lparr>cookie_name = ''sessionID'', cookie_value = g, cookie_path = ''/''\<rparr>]}"
  let ?S = "{ds. (set ds \<subseteq> {..<26} \<and> length ds = 20) \<and> generateRandomString ((!) ds) ?A 20 = g}"
  have fin: "finite ?S"
    by (rule finite_subset [OF _ draws_finite]) blast
  have "generateRandomString ((!) ds) ?A 20 = g"
    if "fst (snd (login D argon2_verify ((!) ds) now db data)) =
                [\<lparr>cookie_name = ''sessionID'', cookie_value = g, cookie_path = ''/''\<rparr>]" for ds
    using login_cookie_value [of D argon2_verify "(!) ds" now db data] that by simp
  then have "?L \<subseteq> ?S" by blast
  then have "card ?L \<le> card ?S" using fin by (rule card_mono [rotated])
  then have "card ?L \<le> 1" using guess_card [of g] by (rule order_trans)
  then have "card ?L * 2 ^ 94 \<le> 1 * 2 ^ 94" by (rule mult_le_mono1)
  also have "\<dots> \<le> (26::nat) ^ 20" by simp
  finally show ?thesis by (simp only: draws_card)
qed

lemma login_valid_credentials:
  assumes "data ''email'' = Some e"
    and "getUserByEmail D db (toLowerCase e) = Inr (DataSuccess m user)"
    and "argon2_verify (hashedPassword user) (data ''password'') = Inr True"
  shows "login D argon2_verify random now db data =
     (case createCookie D db (generateRandomString random ''ABCDEFGHIJKLMNOPQRSTUVWXYZ'' 20)
             (id_user user) now of
        Inl err \<Rightarrow> (Thrown err, [], db)
      | Inr (r, db') \<Rightarrow>
          (Redirect 302 ''/home'',
           [\<lparr>cookie_name = ''sessionID'',
             cookie_value = generateRandomString random ''ABCDEFGHIJKLMNOPQRSTUVWXYZ'' 20,
             cookie_path = ''/''\<rparr>], db'))"
  using assms by (simp add: login_def Let_def)

section \<open>Facts on the example data\<close>

lemma example_cookieID:
  "generateRandomString example_random ''ABCDEFGHIJKLMNOPQRSTUVWXYZ'' 20 = ''DKRYFMTAHOVCJQXELSZG''"
  by code_simp

lemma example_random_range: "\<forall>i<20. example_random i < 26"
  by (simp add: example_random_def)

lemma example_lower:
  "toLowerCase ''A@b.com'' = ''a@b.com''"
  "toLowerCase ''a@b.com'' = ''a@b.com''"
  "toLowerCase ''A@B.COM'' = ''a@b.com''"
  "toLowerCase ''New@b.com'' = ''new@b.com''"
  "toLowerCase ''NEW@B.COM'' = ''new@b.com''"
  "toLowerCase ''nobody@b.com'' = ''nobody@b.com''"
  by code_simp+

lemma example_form_fields:
  "example_form e p ''email'' = Some e"
  "example_form e p ''password'' = Some p"
  "example_form e p ''firstName'' = None"
  "example_form e p ''lastName'' = None"
  by (simp_all add: example_form_def)

lemma example_db_lookup:
  "getUserByEmail sqlite example_db ''a@b.com'' =
     Inr (DataSuccess ''User was retrieved successfully'' example_user)"
  "getUserByEmail sqlite example_db ''A@b.com'' = Inr (DataFailure ''Couldn't find user'')"
  "getUserByEmail sqlite example_db ''nobody@b.com'' = Inr (DataFailure ''Couldn't find user'')"
  by (simp_all add: getUserByEmail_sqlite example_db_def example_user_def)

section \<open>The claims\<close>

text \<open>
  C1 (as amended). \<open>getUserByEmail\<close> compares the email bytewise: on a table with unique
  emails it returns the stored user whose email is exactly the query, and fails when no
  stored email is exactly the query. The folding of case is done by the caller: when
  the stored email is in lower case (as \<open>signup\<close> stores it), the lookup of the
  lower-cased query, which is the lookup \<open>login\<close> makes, returns the user for every
  query that equals the stored email up to letter case.
\<close>

theorem getUserByEmail_exact_match:
  assumes "u \<in> set (users_table db)" and "distinct (map email (users_table db))"
  shows "(email u = q \<longrightarrow>
            getUserByEmail sqlite db q = Inr (DataSuccess ''User was retrieved successfully'' u))
       \<and> (q \<notin> set (map email (users_table db)) \<longrightarrow>
            getUserByEmail sqlite db q = Inr (DataFailure ''Couldn't find user''))
       \<and> (toLowerCase (email u) = email u \<and> toLowerCase q' = toLowerCase (email u) \<longrightarrow>
            getUserByEmail sqlite db (toLowerCase q') =
              Inr (DataSuccess ''User was retrieved successfully'' u))"
proof -
  have f: "find (\<lambda>y. email y = email u) (users_table db) = Some u"
    using assms(2,1) by (rule find_distinct_key)
  have g: "q \<notin> set (map email (users_table db)) \<Longrightarrow> find (\<lambda>y. email y = q) (users_table db) = None"
    using find_None_fresh [of email q "users_table db"] by simp
  show ?thesis
    using f g by (auto simp add: getUserByEmail_sqlite)
qed

theorem getUserByEmail_exact_match_witness:
  "example_user \<in> set (users_table example_db)
   \<and> distinct (map email (users_table example_db))
   \<and> getUserByEmail sqlite example_db ''a@b.com'' =
       Inr (DataSuccess ''User was retrieved successfully'' example_user)
   \<and> getUserByEmail sqlite example_db ''nobody@b.com'' = Inr (DataFailure ''Couldn't find user'')
   \<and> toLowerCase ''A@B.COM'' = toLowerCase (email example_user)
   \<and> getUserByEmail sqlite example_db (toLowerCase ''A@B.COM'') =
       Inr (DataSuccess ''User was retrieved successfully'' example_user)"
proof -
  have h1: "example_user \<in> set (users_table example_db)"
    by (simp add: example_db_def)
  have h2: "distinct (map email (users_table example_db))"
    by (simp add: example_db_def)
  have e: "email example_user = ''a@b.com''"
    by (simp add: example_user_def)
  have n: "''nobody@b.com'' \<notin> set (map email (users_table example_db))"
    by (simp add: example_db_def example_user_def)
  show ?thesis
    using getUserByEmail_exact_match [OF h1 h2, of "''a@b.com''" "''A@B.COM''"]
      getUserByEmail_exact_match [OF h1 h2, of "''nobody@b.com''" "''A@B.COM''"]
      h1 h2 e n
    by (simp add: example_lower)
qed

text \<open>
  C1 as stated fails: the user is stored as \<open>a@b.com\<close>, the query \<open>A@b.com\<close> equals it up
  to letter case, and \<open>getUserByEmail\<close> does not find the user.
\<close>

theorem getUserByEmail_case_sensitive_counterexample:
  "example_user \<in> set (users_table example_db)
   \<and> email example_user = ''a@b.com''
   \<and> toLowerCase ''A@b.com'' = toLowerCase (email example_user)
   \<and> getUserByEmail sqlite example_db ''A@b.com'' = Inr (DataFailure ''Couldn't find user'')"
proof -
  have "email example_user = ''a@b.com''"
    by (simp add: example_user_def)
  then show ?thesis
    by (simp add: example_lower example_db_lookup) (simp add: example_db_def)
qed

text \<open>
  C2. A login with an email that no user has, and a login with the email of a user and
  a password that does not verify, end the same way: the action failure 422 with the
  message \<open>Incorrect username or password\<close>, no cookie set and the database unchanged.
\<close>

theorem login_failure_indistinguishable:
  assumes "data1 ''email'' = Some e1"
    and "getUserByEmail D db1 (toLowerCase e1) = Inr (DataFailure m1)"
    and "data2 ''email'' = Some e2"
    and "getUserByEmail D db2 (toLowerCase e2) = Inr (DataSuccess m2 user)"
    and "verify2 (hashedPassword user) (data2 ''password'') = Inr False"
  shows "login D verify1 random1 now1 db1 data1 =
           (ActionFailure 422 ''Incorrect username or password'', [], db1)
       \<and> login D verify2 random2 now2 db2 data2 =
           (ActionFailure 422 ''Incorrect username or password'', [], db2)
       \<and> fst (login D verify1 random1 now1 db1 data1) =
           fst (login D verify2 random2 now2 db2 data2)
       \<and> fst (snd (login D verify1 random1 now1 db1 data1)) =
           fst (snd (login D verify2 random2 now2 db2 data2))"
  using assms by (simp add: login_def)

theorem login_failure_indistinguishable_witness:
  "getUserByEmail sqlite example_db (toLowerCase ''nobody@b.com'') =
     Inr (DataFailure ''Couldn't find user'')
   \<and> getUserByEmail sqlite example_db (toLowerCase ''A@b.com'') =
     Inr (DataSuccess ''User was retrieved successfully'' example_user)
   \<and> example_verify (hashedPassword example_user) (Some ''wrong'') = Inr False
   \<and> login sqlite example_verify example_random 1000 example_db
       (example_form ''nobody@b.com'' ''1234'') =
       (ActionFailure 422 ''Incorrect username or password'', [], example_db)
   \<and> login sqlite example_verify example_random 1000 example_db
       (example_form ''A@b.com'' ''wrong'') =
       (ActionFailure 422 ''Incorrect username or password'', [], example_db)"
proof -
  have h1: "example_form ''nobody@b.com'' ''1234'' ''email'' = Some ''nobody@b.com''"
    by (rule example_form_fields)
  have h2: "getUserByEmail sqlite example_db (toLowerCase ''nobody@b.com'') =
      Inr (DataFailure ''Couldn't find user'')"
    by (simp add: example_lower example_db_lookup)
  have h3: "example_form ''A@b.com'' ''wrong'' ''email'' = Some ''A@b.com''"
    by (rule example_form_fields)
  have h4: "getUserByEmail sqlite example_db (toLowerCase ''A@b.com'') =
      Inr (DataSuccess ''User was retrieved successfully'' example_user)"
    by (simp add: example_lower example_db_lookup)
  have v: "example_verify (hashedPassword example_user) (Some ''wrong'') = Inr False"
    by (simp add: example_verify_def example_user_def)
  have h5: "example_verify (hashedPassword example_user)
              (example_form ''A@b.com'' ''wrong'' ''password'') = Inr False"
    using v by (simp add: example_form_fields)
  show ?thesis
    using login_failure_indistinguishable
        [where ?data1.0 = "example_form ''nobody@b.com'' ''1234''"
           and ?data2.0 = "example_form ''A@b.com'' ''wrong''"
           and ?verify1.0 = example_verify and ?verify2.0 = example_verify
           and ?random1.0 = example_random and ?random2.0 = example_random
           and ?now1.0 = 1000 and ?now2.0 = 1000, OF h1 h2 h3 h4 h5]
      h2 h4 v
    by simp
qed

text \<open>
  C3 (as amended). \<open>createUser\<close> fails with \<open>Email already in use\<close>, inserting no row,
  when a stored email is exactly the email of the record, and otherwise inserts exactly
  one row and returns success; it folds no case. The action \<open>signup\<close> lower-cases the
  email before it calls \<open>createUser\<close>: a first signup with a fresh email succeeds and
  inserts one row, and a second signup with the same email in any casing fails with
  \<open>Email already in use\<close> and inserts nothing.
\<close>

theorem createUser_duplicate_exact_email:
  assumes "argon2_hash (data1 ''password'') 2 = Inr h1"
    and "argon2_hash (data2 ''password'') 2 = Inr h2"
    and "data1 ''email'' = Some e1"
    and "data2 ''email'' = Some e2"
    and "toLowerCase e2 = toLowerCase e1"
    and "toLowerCase e1 \<notin> set (map email (users_table db0))"
    and "db1 = db0\<lparr>users_table := users_table db0 @
                     [\<lparr>firstName = data1 ''firstName'', lastName = data1 ''lastName'',
                       email = toLowerCase e1, hashedPassword = h1,
                       id_user = next_rowid (users_table db0)\<rparr>]\<rparr>"
  shows "createUser sqlite db user =
     (if email user \<in> set (map email (users_table db))
      then Inr (\<lparr>success = False, message = ''Email already in use''\<rparr>, db)
      else Inr (\<lparr>success = True, message = ''User was created successfully''\<rparr>,
                db\<lparr>users_table := users_table db @
                     [\<lparr>firstName = firstName user, lastName = lastName user,
                       email = email user, hashedPassword = hashedPassword user,
                       id_user = next_rowid (users_table db)\<rparr>]\<rparr>))
    \<and> signup sqlite argon2_hash db0 data1 = (Returned_undefined, [], db1)
    \<and> signup sqlite argon2_hash db1 data2 = (ActionFailure 422 ''Email already in use'', [], db1)"
proof -
  have s1: "signup sqlite argon2_hash db0 data1 = (Returned_undefined, [], db1)"
    using assms(1,3,6) by (simp add: signup_def createUser_sqlite assms(7))
  have "toLowerCase e2 \<in> set (map email (users_table db1))"
    by (simp add: assms(5,7))
  then have s2: "signup sqlite argon2_hash db1 data2 =
      (ActionFailure 422 ''Email already in use'', [], db1)"
    using assms(2,4) by (simp add: signup_def createUser_sqlite)
  show ?thesis using s1 s2 createUser_sqlite by simp
qed

theorem createUser_duplicate_exact_email_witness:
  "toLowerCase ''NEW@B.COM'' = toLowerCase ''New@b.com''
   \<and> toLowerCase ''New@b.com'' \<notin> set (map email (users_table example_db))
   \<and> createUser sqlite example_db
        \<lparr>firstName = None, lastName = None, email = ''a@b.com'', hashedPassword = ''#x''\<rparr> =
       Inr (\<lparr>success = False, message = ''Email already in use''\<rparr>, example_db)
   \<and> signup sqlite example_hash example_db (example_form ''New@b.com'' ''pw'') =
       (Returned_undefined, [],
        example_db\<lparr>users_table := [example_user,
          \<lparr>firstName = None, lastName = None, email = ''new@b.com'', hashedPassword = ''#pw'',
           id_user = 2\<rparr>]\<rparr>)
   \<and> signup sqlite example_hash
        (example_db\<lparr>users_table := [example_user,
          \<lparr>firstName = None, lastName = None, email = ''new@b.com'', hashedPassword = ''#pw'',
           id_user = 2\<rparr>]\<rparr>)
        (example_form ''NEW@B.COM'' ''other'') =
       (ActionFailure 422 ''Email already in use'', [],
        example_db\<lparr>users_table := [example_user,
          \<lparr>firstName = None, lastName = None, email = ''new@b.com'', hashedPassword = ''#pw'',
           id_user = 2\<rparr>]\<rparr>)"
proof -
  let ?row = "\<lparr>firstName = None, lastName = None, email = ''new@b.com'',
               hashedPassword = ''#pw'', id_user = 2\<rparr>"
  let ?db1 = "example_db\<lparr>users_table := [example_user, ?row]\<rparr>"
  have h1: "example_hash (example_form ''New@b.com'' ''pw'' ''password'') 2 = Inr ''#pw''"
    by (simp add: example_hash_def example_form_fields)
  have h2: "example_hash (example_form ''NEW@B.COM'' ''other'' ''password'') 2 = Inr ''#other''"
    by (simp add: example_hash_def example_form_fields)
  have h3: "example_form ''New@b.com'' ''pw'' ''email'' = Some ''New@b.com''"
    by (rule example_form_fields)
  have h4: "example_form ''NEW@B.COM'' ''other'' ''email'' = Some ''NEW@B.COM''"
    by (rule example_form_fields)
  have h5: "toLowerCase ''NEW@B.COM'' = toLowerCase ''New@b.com''"
    by (simp add: example_lower)
  have h6: "toLowerCase ''New@b.com'' \<notin> set (map email (users_table example_db))"
    by (simp add: example_lower example_db_def example_user_def)
  have h7: "?db1 = example_db\<lparr>users_table := users_table example_db @
                     [\<lparr>firstName = example_form ''New@b.com'' ''pw'' ''firstName'',
                       lastName = example_form ''New@b.com'' ''pw'' ''lastName'',
                       email = toLowerCase ''New@b.com'', hashedPassword = ''#pw'',
                       id_user = next_rowid (users_table example_db)\<rparr>]\<rparr>"
    by (simp add: example_lower example_form_fields example_db_def example_user_def
        next_rowid_def)
  have d: "email \<lparr>firstName = None, lastName = None, email = ''a@b.com'',
                   hashedPassword = ''#x''\<rparr> \<in> set (map email (users_table example_db))"
    by (simp add: example_db_def example_user_def)
  show ?thesis
    using createUser_duplicate_exact_email
        [where argon2_hash = example_hash
           and ?data1.0 = "example_form ''New@b.com'' ''pw''"
           and ?data2.0 = "example_form ''NEW@B.COM'' ''other''"
           and db = example_db
           and user = "\<lparr>firstName = None, lastName = None, email = ''a@b.com'',
                         hashedPassword = ''#x''\<rparr>",
         OF h1 h2 h3 h4 h5 h6 h7]
      h5 h6 d
    by (simp only: if_True simp_thms)
qed

text \<open>
  C3 as stated fails: \<open>a@b.com\<close> is stored, the record carries \<open>A@b.com\<close>, which matches
  it up to letter case, and \<open>createUser\<close> returns success and inserts a second row.
\<close>

theorem createUser_case_sensitive_counterexample:
  "example_user \<in> set (users_table example_db)
   \<and> toLowerCase ''A@b.com'' = toLowerCase (email example_user)
   \<and> createUser sqlite example_db
        \<lparr>firstName = Some ''Al'', lastName = Some ''Roe'', email = ''A@b.com'',
         hashedPassword = ''#pw''\<rparr> =
      Inr (\<lparr>success = True, message = ''User was created successfully''\<rparr>,
           example_db\<lparr>users_table := [example_user,
             \<lparr>firstName = Some ''Al'', lastName = Some ''Roe'', email = ''A@b.com'',
              hashedPassword = ''#pw'', id_user = 2\<rparr>]\<rparr>)"
proof -
  have "email example_user = ''a@b.com''"
    by (simp add: example_user_def)
  then show ?thesis
    by (simp add: example_lower createUser_sqlite example_db_def next_rowid_def)
      (simp add: example_user_def)
qed

text \<open>
  C4. When the store takes the row (the session id is not yet in the table \<open>cookie\<close> and
  the user id is one of \<open>users\<close>), \<open>createCookie\<close> at time \<open>now\<close> returns success and
  stores the session with \<open>expireTime = now + 3600000\<close>, one hour in milliseconds:
  reading the session back gives that expiry, which is strictly after \<open>now\<close> and not
  more than one hour after it. And every call of \<open>createCookie\<close> that returns has stored
  exactly that row.
\<close>

theorem createCookie_expiry_one_hour:
  assumes "cid \<notin> set (map id_cookie (cookie_table db))"
    and "uid \<in> set (map id_user (users_table db))"
    and "db' = db\<lparr>cookie_table := cookie_table db @
                  [\<lparr>id_cookie = cid, userID = uid, expireTime = now + 3600000\<rparr>]\<rparr>"
  shows "createCookie sqlite db cid uid now =
           Inr (\<lparr>success = True, message = ''Successful cookie creation''\<rparr>, db')
       \<and> getCookie sqlite db' cid =
           Inr (DataSuccess ''Found cookie successfully''
                  \<lparr>id_cookie = cid, userID = uid, expireTime = now + 3600000\<rparr>)
       \<and> now < now + 3600000
       \<and> now + 3600000 \<le> now + 60 * 60 * 1000
       \<and> (\<forall>r d. createCookie sqlite db0 cid0 uid0 now = Inr (r, d) \<longrightarrow>
            success r
            \<and> cookie_table d = cookie_table db0 @
                 [\<lparr>id_cookie = cid0, userID = uid0, expireTime = now + 3600000\<rparr>])"
proof -
  have "createCookie sqlite db cid uid now =
          Inr (\<lparr>success = True, message = ''Successful cookie creation''\<rparr>, db')"
    unfolding assms(3) using assms(1,2) by (rule createCookie_sqlite)
  moreover have "getCookie sqlite db' cid =
      Inr (DataSuccess ''Found cookie successfully''
             \<lparr>id_cookie = cid, userID = uid, expireTime = now + 3600000\<rparr>)"
    unfolding assms(3) using assms(1) by (rule getCookie_sqlite_fresh_append) simp
  moreover have "success r \<and> cookie_table d = cookie_table db0 @
                 [\<lparr>id_cookie = cid0, userID = uid0, expireTime = now + 3600000\<rparr>]"
    if "createCookie sqlite db0 cid0 uid0 now = Inr (r, d)" for r d
    using that
    by (auto simp add: createCookie_def sqlite_def sqlite_cookie_insert_def split: if_splits)
  moreover have "now < now + 3600000 \<and> now + 3600000 \<le> now + 60 * 60 * 1000"
    by simp
  ultimately show ?thesis by blast
qed

theorem createCookie_expiry_one_hour_witness:
  "''DKRYFMTAHOVCJQXELSZG'' \<notin> set (map id_cookie (cookie_table example_db_session))
   \<and> 1 \<in> set (map id_user (users_table example_db_session))
   \<and> createCookie sqlite example_db_session ''DKRYFMTAHOVCJQXELSZG'' 1 1000 =
       Inr (\<lparr>success = True, message = ''Successful cookie creation''\<rparr>,
            example_db_session\<lparr>cookie_table := [example_session,
              \<lparr>id_cookie = ''DKRYFMTAHOVCJQXELSZG'', userID = 1, expireTime = 3601000\<rparr>]\<rparr>)
   \<and> getCookie sqlite
        (example_db_session\<lparr>cookie_table := [example_session,
              \<lparr>id_cookie = ''DKRYFMTAHOVCJQXELSZG'', userID = 1, expireTime = 3601000\<rparr>]\<rparr>)
        ''DKRYFMTAHOVCJQXELSZG'' =
       Inr (DataSuccess ''Found cookie successfully''
              \<lparr>id_cookie = ''DKRYFMTAHOVCJQXELSZG'', userID = 1, expireTime = 3601000\<rparr>)"
proof -
  let ?c = "\<lparr>id_cookie = ''DKRYFMTAHOVCJQXELSZG'', userID = 1, expireTime = 3601000\<rparr>"
  have h1: "''DKRYFMTAHOVCJQXELSZG'' \<notin> set (map id_cookie (cookie_table example_db_session))"
    by (simp add: example_db_session_def example_session_def)
  have h2: "1 \<in> set (map id_user (users_table example_db_session))"
    by (simp add: example_db_session_def example_user_def)
  have h3: "example_db_session\<lparr>cookie_table := [example_session, ?c]\<rparr> =
      example_db_session\<lparr>cookie_table := cookie_table example_db_session @
        [\<lparr>id_cookie = ''DKRYFMTAHOVCJQXELSZG'', userID = 1, expireTime = 1000 + 3600000\<rparr>]\<rparr>"
    by (simp add: example_db_session_def)
  note t = createCookie_expiry_one_hour [OF h1 h2 h3,
      where ?db0.0 = example_db_session and ?cid0.0 = "''DKRYFMTAHOVCJQXELSZG''"
        and ?uid0.0 = 1]
  have t1: "createCookie sqlite example_db_session ''DKRYFMTAHOVCJQXELSZG'' 1 1000 =
       Inr (\<lparr>success = True, message = ''Successful cookie creation''\<rparr>,
            example_db_session\<lparr>cookie_table := [example_session, ?c]\<rparr>)"
    using t by (rule conjunct1)
  have t2: "getCookie sqlite (example_db_session\<lparr>cookie_table := [example_session, ?c]\<rparr>)
        ''DKRYFMTAHOVCJQXELSZG'' =
       Inr (DataSuccess ''Found cookie successfully''
              \<lparr>id_cookie = ''DKRYFMTAHOVCJQXELSZG'', userID = 1, expireTime = 1000 + 3600000\<rparr>)"
    using t by (elim conjE)
  have t3: "getCookie sqlite (example_db_session\<lparr>cookie_table := [example_session, ?c]\<rparr>)
        ''DKRYFMTAHOVCJQXELSZG'' = Inr (DataSuccess ''Found cookie successfully'' ?c)"
    using t2 by simp
  show ?thesis
    using h1 h2 t1 t3 by (intro conjI)
qed

text \<open>
  C5. For a session id that is in the table \<open>cookie\<close> (ids being unique there),
  \<open>updateCookie\<close> at time \<open>now\<close> returns success and sets the expiry of that session to
  \<open>now + 1800000\<close>, thirty minutes in milliseconds. That differs from what session
  creation uses: any session that \<open>createCookie\<close> stores at the same \<open>now\<close> expires at
  \<open>now + 3600000\<close>.
\<close>

theorem updateCookie_expiry_thirty_minutes:
  assumes "c \<in> set (cookie_table db)"
    and "distinct (map id_cookie (cookie_table db))"
    and "db' = db\<lparr>cookie_table :=
                  map (\<lambda>y. if id_cookie y = id_cookie c then y\<lparr>expireTime := now + 1800000\<rparr> else y)
                      (cookie_table db)\<rparr>"
  shows "updateCookie sqlite db (id_cookie c) now =
           Inr (\<lparr>success = True, message = ''Updated cookie successfully''\<rparr>, db')
       \<and> getCookie sqlite db' (id_cookie c) =
           Inr (DataSuccess ''Found cookie successfully'' (c\<lparr>expireTime := now + 1800000\<rparr>))
       \<and> now + 1800000 = now + 1000 * 30 * 60
       \<and> (\<forall>db0 cid uid r db1. createCookie sqlite db0 cid uid now = Inr (r, db1) \<longrightarrow>
            (\<exists>c1. getCookie sqlite db1 cid = Inr (DataSuccess ''Found cookie successfully'' c1)
                \<and> expireTime c1 = now + 3600000
                \<and> expireTime c1 \<noteq> expireTime (c\<lparr>expireTime := now + 1800000\<rparr>)))"
proof -
  have n: "length (filter (\<lambda>y. id_cookie y = id_cookie c) (cookie_table db)) = 1"
    using assms(2,1) by (rule count_distinct_key)
  have a: "updateCookie sqlite db (id_cookie c) now =
           Inr (\<lparr>success = True, message = ''Updated cookie successfully''\<rparr>, db')"
    using n by (simp add: updateCookie_def sqlite_def sqlite_cookie_update_def assms(3))
  have b: "getCookie sqlite db' (id_cookie c) =
           Inr (DataSuccess ''Found cookie successfully'' (c\<lparr>expireTime := now + 1800000\<rparr>))"
    using find_map_update [OF assms(2,1), of "now + 1800000"]
    by (simp add: getCookie_def sqlite_def sqlite_cookie_get_def assms(3))
  have c: "\<exists>c1. getCookie sqlite db1 cid = Inr (DataSuccess ''Found cookie successfully'' c1)
                \<and> expireTime c1 = now + 3600000
                \<and> expireTime c1 \<noteq> expireTime (c\<lparr>expireTime := now + 1800000\<rparr>)"
    if "createCookie sqlite db0 cid uid now = Inr (r, db1)" for db0 cid uid r db1
  proof -
    let ?c1 = "\<lparr>id_cookie = cid, userID = uid, expireTime = now + 3600000\<rparr>"
    have fresh: "cid \<notin> set (map id_cookie (cookie_table db0))"
      and db1: "db1 = db0\<lparr>cookie_table := cookie_table db0 @ [?c1]\<rparr>"
      using that
      by (auto simp add: createCookie_def sqlite_def sqlite_cookie_insert_def split: if_splits)
    have "getCookie sqlite db1 cid = Inr (DataSuccess ''Found cookie successfully'' ?c1)"
      unfolding db1 using fresh by (rule getCookie_sqlite_fresh_append) simp
    then show ?thesis by simp
  qed
  have d: "now + 1800000 = now + 1000 * 30 * 60" by simp
  show ?thesis using a b c d by blast
qed

theorem updateCookie_expiry_thirty_minutes_witness:
  "example_session \<in> set (cookie_table example_db_session)
   \<and> distinct (map id_cookie (cookie_table example_db_session))
   \<and> updateCookie sqlite example_db_session ''QWERTYUIOPASDFGHJKLZ'' 4000 =
       Inr (\<lparr>success = True, message = ''Updated cookie successfully''\<rparr>,
            example_db_session\<lparr>cookie_table :=
              [\<lparr>id_cookie = ''QWERTYUIOPASDFGHJKLZ'', userID = 1, expireTime = 1804000\<rparr>]\<rparr>)
   \<and> getCookie sqlite
        (example_db_session\<lparr>cookie_table :=
              [\<lparr>id_cookie = ''QWERTYUIOPASDFGHJKLZ'', userID = 1, expireTime = 1804000\<rparr>]\<rparr>)
        ''QWERTYUIOPASDFGHJKLZ'' =
       Inr (DataSuccess ''Found cookie successfully''
              \<lparr>id_cookie = ''QWERTYUIOPASDFGHJKLZ'', userID = 1, expireTime = 1804000\<rparr>)
   \<and> createCookie sqlite example_db ''DKRYFMTAHOVCJQXELSZG'' 1 4000 =
       Inr (\<lparr>success = True, message = ''Successful cookie creation''\<rparr>,
            example_db\<lparr>cookie_table :=
              [\<lparr>id_cookie = ''DKRYFMTAHOVCJQXELSZG'', userID = 1, expireTime = 3604000\<rparr>]\<rparr>)
   \<and> (\<exists>c1. getCookie sqlite
               (example_db\<lparr>cookie_table :=
                  [\<lparr>id_cookie = ''DKRYFMTAHOVCJQXELSZG'', userID = 1, expireTime = 3604000\<rparr>]\<rparr>)
               ''DKRYFMTAHOVCJQXELSZG'' = Inr (DataSuccess ''Found cookie successfully'' c1)
           \<and> expireTime c1 = 3604000 \<and> expireTime c1 \<noteq> 1804000)"
proof -
  let ?db1 = "example_db\<lparr>cookie_table :=
      [\<lparr>id_cookie = ''DKRYFMTAHOVCJQXELSZG'', userID = 1, expireTime = 3604000\<rparr>]\<rparr>"
  let ?db' = "example_db_session\<lparr>cookie_table :=
      [\<lparr>id_cookie = ''QWERTYUIOPASDFGHJKLZ'', userID = 1, expireTime = 1804000\<rparr>]\<rparr>"
  have h1: "example_session \<in> set (cookie_table example_db_session)"
    by (simp add: example_db_session_def)
  have h2: "distinct (map id_cookie (cookie_table example_db_session))"
    by (simp add: example_db_session_def)
  have h3: "?db' = example_db_session\<lparr>cookie_table :=
      map (\<lambda>y. if id_cookie y = id_cookie example_session
                then y\<lparr>expireTime := 4000 + 1800000\<rparr> else y)
          (cookie_table example_db_session)\<rparr>"
    by (simp add: example_db_session_def example_session_def)
  have i: "id_cookie example_session = ''QWERTYUIOPASDFGHJKLZ''"
    and u: "example_session\<lparr>expireTime := 1804000\<rparr> =
      \<lparr>id_cookie = ''QWERTYUIOPASDFGHJKLZ'', userID = 1, expireTime = 1804000\<rparr>"
    by (simp_all add: example_session_def)
  have h4: "createCookie sqlite example_db ''DKRYFMTAHOVCJQXELSZG'' 1 4000 =
       Inr (\<lparr>success = True, message = ''Successful cookie creation''\<rparr>, ?db1)"
    by (simp add: createCookie_def sqlite_def sqlite_cookie_insert_def example_db_def
        example_user_def)
  have t: "updateCookie sqlite example_db_session (id_cookie example_session) 4000 =
           Inr (\<lparr>success = True, message = ''Updated cookie successfully''\<rparr>, ?db')
       \<and> getCookie sqlite ?db' (id_cookie example_session) =
           Inr (DataSuccess ''Found cookie successfully''
                  (example_session\<lparr>expireTime := 4000 + 1800000\<rparr>))
       \<and> (4000::int) + 1800000 = 4000 + 1000 * 30 * 60
       \<and> (\<forall>db0 cid uid r db1. createCookie sqlite db0 cid uid 4000 = Inr (r, db1) \<longrightarrow>
            (\<exists>c1. getCookie sqlite db1 cid = Inr (DataSuccess ''Found cookie successfully'' c1)
                \<and> expireTime c1 = 4000 + 3600000
                \<and> expireTime c1 \<noteq> expireTime (example_session\<lparr>expireTime := 4000 + 1800000\<rparr>)))"
    by (rule updateCookie_expiry_thirty_minutes [OF h1 h2 h3])
  from t have t1: "updateCookie sqlite example_db_session ''QWERTYUIOPASDFGHJKLZ'' 4000 =
           Inr (\<lparr>success = True, message = ''Updated cookie successfully''\<rparr>, ?db')"
    and t2: "getCookie sqlite ?db' ''QWERTYUIOPASDFGHJKLZ'' =
           Inr (DataSuccess ''Found cookie successfully''
                  \<lparr>id_cookie = ''QWERTYUIOPASDFGHJKLZ'', userID = 1, expireTime = 1804000\<rparr>)"
    using i u by simp_all
  from t h4 have "\<exists>c1. getCookie sqlite ?db1 ''DKRYFMTAHOVCJQXELSZG'' =
                  Inr (DataSuccess ''Found cookie successfully'' c1)
                \<and> expireTime c1 = 4000 + 3600000
                \<and> expireTime c1 \<noteq> expireTime (example_session\<lparr>expireTime := 4000 + 1800000\<rparr>)"
    by blast
  then have t3: "\<exists>c1. getCookie sqlite ?db1 ''DKRYFMTAHOVCJQXELSZG'' =
                  Inr (DataSuccess ''Found cookie successfully'' c1)
                \<and> expireTime c1 = 3604000 \<and> expireTime c1 \<noteq> 1804000"
    by simp
  show ?thesis
    using h1 h2 t1 t2 h4 t3 by (simp only: simp_thms)
qed

text \<open>
  C6. A login whose email resolves to a user and whose password verifies passes one and
  the same id to \<open>createCookie\<close> and to \<open>cookies.set\<close>: it throws what \<open>createCookie\<close>
  throws, and otherwise redirects with the cookie \<open>sessionID\<close> set to that id. With the
  random integers in range (below 26, as the random package promises), that id has
  exactly 20 characters, each from the alphabet \<open>A\<close> to \<open>Z\<close> of 26 distinct symbols. The
  ids of that shape are \<open>26 ^ 20\<close> many, which is at least \<open>2 ^ 94\<close>, and each of them is
  generated by some draw. Among the \<open>26 ^ 20\<close> sequences of 20 draws, the ones on which
  \<open>login\<close> hands out a given id \<open>g\<close> are at most a fraction \<open>2 ^ -94\<close>: under uniform
  draws no guess is right with a higher probability. Every cookie that \<open>login\<close> sets is
  named \<open>sessionID\<close> and carries the id.
\<close>

theorem session_id_length_alphabet_entropy:
  assumes "data ''email'' = Some e"
    and "getUserByEmail D db (toLowerCase e) = Inr (DataSuccess m user)"
    and "argon2_verify (hashedPassword user) (data ''password'') = Inr True"
    and "\<forall>i<20. random i < 26"
    and "cookieID = generateRandomString random ''ABCDEFGHIJKLMNOPQRSTUVWXYZ'' 20"
  shows "login D argon2_verify random now db data =
           (case createCookie D db cookieID (id_user user) now of
              Inl err \<Rightarrow> (Thrown err, [], db)
            | Inr (r, db') \<Rightarrow>
                (Redirect 302 ''/home'',
                 [\<lparr>cookie_name = ''sessionID'', cookie_value = cookieID, cookie_path = ''/''\<rparr>],
                 db'))
       \<and> length cookieID = 20
       \<and> set cookieID \<subseteq> set ''ABCDEFGHIJKLMNOPQRSTUVWXYZ''
       \<and> card (set ''ABCDEFGHIJKLMNOPQRSTUVWXYZ'') = 26
       \<and> card {s. set s \<subseteq> set ''ABCDEFGHIJKLMNOPQRSTUVWXYZ'' \<and> length s = 20} = 26 ^ 20
       \<and> (2::nat) ^ 94 \<le> card {s. set s \<subseteq> set ''ABCDEFGHIJKLMNOPQRSTUVWXYZ'' \<and> length s = 20}
       \<and> (\<forall>s. set s \<subseteq> set ''ABCDEFGHIJKLMNOPQRSTUVWXYZ'' \<and> length s = 20 \<longrightarrow>
            (\<exists>random'. (\<forall>i<20. random' i < 26)
               \<and> generateRandomString random' ''ABCDEFGHIJKLMNOPQRSTUVWXYZ'' 20 = s))
       \<and> (\<forall>g. card {ds. (set ds \<subseteq> {..<26} \<and> length ds = 20)
                     \<and> fst (snd (login D argon2_verify ((!) ds) now db data)) =
                         [\<lparr>cookie_name = ''sessionID'', cookie_value = g, cookie_path = ''/''\<rparr>]}
                * 2 ^ 94
              \<le> card {ds::nat list. set ds \<subseteq> {..<26} \<and> length ds = 20})
       \<and> (\<forall>c \<in> set (fst (snd (login D argon2_verify random now db data))).
            cookie_name c = ''sessionID'' \<and> cookie_value c = cookieID)"
proof -
  let ?A = "''ABCDEFGHIJKLMNOPQRSTUVWXYZ''"
  have len: "length ?A = 26" by simp
  have lgn: "login D argon2_verify random now db data =
           (case createCookie D db cookieID (id_user user) now of
              Inl err \<Rightarrow> (Thrown err, [], db)
            | Inr (r, db') \<Rightarrow>
                (Redirect 302 ''/home'',
                 [\<lparr>cookie_name = ''sessionID'', cookie_value = cookieID, cookie_path = ''/''\<rparr>],
                 db'))"
    unfolding assms(5) using assms(1,2,3) by (rule login_valid_credentials)
  have eq: "cookieID = map (\<lambda>i. ?A ! random i) [0..<20]"
    unfolding assms(5) using assms(4) by (intro generateRandomString_in_range) (simp only: len)
  have l: "length cookieID = 20" by (simp add: eq)
  have "\<forall>i<20. ?A ! random i \<in> set ?A"
    using assms(4) by (metis len nth_mem)
  then have sub: "set cookieID \<subseteq> set ?A"
    unfolding eq by (auto simp del: list.set)
  have card: "card {s. set s \<subseteq> set ?A \<and> length s = 20} = 26 ^ 20"
    using card_lists_length_eq [of "set ?A" 20] by (simp only: alphabet_card List.finite_set)
  have ent: "(2::nat) ^ 94 \<le> card {s. set s \<subseteq> set ?A \<and> length s = 20}"
    unfolding card by simp
  have onto: "\<forall>s. set s \<subseteq> set ?A \<and> length s = 20 \<longrightarrow>
      (\<exists>random'. (\<forall>i<20. random' i < 26) \<and> generateRandomString random' ?A 20 = s)"
  proof (intro allI impI)
    fix s
    assume "set s \<subseteq> set ?A \<and> length s = 20"
    then show "\<exists>random'. (\<forall>i<20. random' i < 26) \<and> generateRandomString random' ?A 20 = s"
      using generateRandomString_onto [of s ?A] by (simp only: len)
  qed
  have guess: "\<forall>g. card {ds. (set ds \<subseteq> {..<26} \<and> length ds = 20)
                     \<and> fst (snd (login D argon2_verify ((!) ds) now db data)) =
                         [\<lparr>cookie_name = ''sessionID'', cookie_value = g, cookie_path = ''/''\<rparr>]}
                * 2 ^ 94
              \<le> card {ds::nat list. set ds \<subseteq> {..<26} \<and> length ds = 20}"
    by (intro allI login_guess_card)
  have lg: "\<forall>c \<in> set (fst (snd (login D argon2_verify random now db data))).
            cookie_name c = ''sessionID'' \<and> cookie_value c = cookieID"
    unfolding assms(5) by (rule login_cookie_value)
  show ?thesis
    using lgn l sub alphabet_card card ent onto guess lg by (intro conjI)
qed

theorem session_id_length_alphabet_entropy_witness:
  "getUserByEmail sqlite example_db (toLowerCase ''A@b.com'') =
     Inr (DataSuccess ''User was retrieved successfully'' example_user)
   \<and> example_verify (hashedPassword example_user) (Some ''1234'') = Inr True
   \<and> list_all (\<lambda>i. example_random i < 26) [0..<20]
   \<and> login sqlite example_verify example_random 1000 example_db
        (example_form ''A@b.com'' ''1234'') =
       (Redirect 302 ''/home'',
        [\<lparr>cookie_name = ''sessionID'', cookie_value = ''DKRYFMTAHOVCJQXELSZG'',
          cookie_path = ''/''\<rparr>],
        example_db\<lparr>cookie_table :=
          [\<lparr>id_cookie = ''DKRYFMTAHOVCJQXELSZG'', userID = 1, expireTime = 3601000\<rparr>]\<rparr>)
   \<and> length ''DKRYFMTAHOVCJQXELSZG'' = 20
   \<and> set ''DKRYFMTAHOVCJQXELSZG'' \<subseteq> set ''ABCDEFGHIJKLMNOPQRSTUVWXYZ''
   \<and> (2::nat) ^ 94 \<le> card {s. set s \<subseteq> set ''ABCDEFGHIJKLMNOPQRSTUVWXYZ'' \<and> length s = 20}
   \<and> (\<exists>random'. list_all (\<lambda>i. random' i < 26) [0..<20]
         \<and> generateRandomString random' ''ABCDEFGHIJKLMNOPQRSTUVWXYZ'' 20 = ''AAAAAAAAAAAAAAAAAAAA'')
   \<and> card {ds. (set ds \<subseteq> {..<26} \<and> length ds = 20)
              \<and> fst (snd (login sqlite example_verify ((!) ds) 1000 example_db
                             (example_form ''A@b.com'' ''1234''))) =
                  [\<lparr>cookie_name = ''sessionID'', cookie_value = ''DKRYFMTAHOVCJQXELSZG'',
                    cookie_path = ''/''\<rparr>]}
       * 2 ^ 94
     \<le> card {ds::nat list. set ds \<subseteq> {..<26} \<and> length ds = 20}
   \<and> list_all (\<lambda>c. cookie_name c = ''sessionID'' \<and> cookie_value c = ''DKRYFMTAHOVCJQXELSZG'')
        (fst (snd (login sqlite example_verify example_random 1000 example_db
                     (example_form ''A@b.com'' ''1234''))))"
proof -
  have h1: "example_form ''A@b.com'' ''1234'' ''email'' = Some ''A@b.com''"
    by (rule example_form_fields)
  have g: "getUserByEmail sqlite example_db (toLowerCase ''A@b.com'') =
     Inr (DataSuccess ''User was retrieved successfully'' example_user)"
    by (simp add: example_lower example_db_lookup)
  have v: "example_verify (hashedPassword example_user) (Some ''1234'') = Inr True"
    by (simp add: example_verify_def example_user_def)
  have h3: "example_verify (hashedPassword example_user)
      (example_form ''A@b.com'' ''1234'' ''password'') = Inr True"
    using v by (simp add: example_form_fields)
  have h5: "''DKRYFMTAHOVCJQXELSZG'' =
      generateRandomString example_random ''ABCDEFGHIJKLMNOPQRSTUVWXYZ'' 20"
    by (simp only: example_cookieID)
  have a: "set ''AAAAAAAAAAAAAAAAAAAA'' \<subseteq> set ''ABCDEFGHIJKLMNOPQRSTUVWXYZ''
      \<and> length ''AAAAAAAAAAAAAAAAAAAA'' = 20"
    by simp
  have r: "list_all (\<lambda>i. f i < 26) [0..<20] \<longleftrightarrow> (\<forall>i<20. f i < 26)" for f :: "nat \<Rightarrow> nat"
    by (simp only: list_all_iff set_upt atLeast0LessThan Ball_def lessThan_iff)
  have c: "createCookie sqlite example_db ''DKRYFMTAHOVCJQXELSZG'' (id_user example_user) 1000 =
      Inr (\<lparr>success = True, message = ''Successful cookie creation''\<rparr>,
           example_db\<lparr>cookie_table :=
             [\<lparr>id_cookie = ''DKRYFMTAHOVCJQXELSZG'', userID = 1, expireTime = 3601000\<rparr>]\<rparr>)"
    by (simp add: createCookie_def sqlite_def sqlite_cookie_insert_def example_db_def
        example_user_def)
  note t = session_id_length_alphabet_entropy
    [where data = "example_form ''A@b.com'' ''1234''" and argon2_verify = example_verify
       and now = 1000,
     OF h1 g h3 example_random_range h5]
  have "login sqlite example_verify example_random 1000 example_db
        (example_form ''A@b.com'' ''1234'') =
       (case createCookie sqlite example_db ''DKRYFMTAHOVCJQXELSZG'' (id_user example_user) 1000 of
          Inl err \<Rightarrow> (Thrown err, [], example_db)
        | Inr (r, db') \<Rightarrow>
            (Redirect 302 ''/home'',
             [\<lparr>cookie_name = ''sessionID'', cookie_value = ''DKRYFMTAHOVCJQXELSZG'',
               cookie_path = ''/''\<rparr>], db'))"
    using t by (rule conjunct1)
  then have t1: "login sqlite example_verify example_random 1000 example_db
        (example_form ''A@b.com'' ''1234'') =
       (Redirect 302 ''/home'',
        [\<lparr>cookie_name = ''sessionID'', cookie_value = ''DKRYFMTAHOVCJQXELSZG'',
          cookie_path = ''/''\<rparr>],
        example_db\<lparr>cookie_table :=
          [\<lparr>id_cookie = ''DKRYFMTAHOVCJQXELSZG'', userID = 1, expireTime = 3601000\<rparr>]\<rparr>)"
    by (simp only: c sum.case prod.case)
  have t0: "list_all (\<lambda>i. example_random i < 26) [0..<20]"
    unfolding r by (rule example_random_range)
  have t2: "length ''DKRYFMTAHOVCJQXELSZG'' = 20"
    using t by (elim conjE)
  have t3: "set ''DKRYFMTAHOVCJQXELSZG'' \<subseteq> set ''ABCDEFGHIJKLMNOPQRSTUVWXYZ''"
    using t by (elim conjE)
  have t5: "(2::nat) ^ 94 \<le> card {s. set s \<subseteq> set ''ABCDEFGHIJKLMNOPQRSTUVWXYZ'' \<and> length s = 20}"
    using t by (elim conjE)
  have all: "\<forall>s. set s \<subseteq> set ''ABCDEFGHIJKLMNOPQRSTUVWXYZ'' \<and> length s = 20 \<longrightarrow>
            (\<exists>random'. (\<forall>i<20. random' i < 26)
               \<and> generateRandomString random' ''ABCDEFGHIJKLMNOPQRSTUVWXYZ'' 20 = s)"
    using t by (elim conjE)
  have "\<exists>random'. (\<forall>i<20. random' i < 26)
         \<and> generateRandomString random' ''ABCDEFGHIJKLMNOPQRSTUVWXYZ'' 20 = ''AAAAAAAAAAAAAAAAAAAA''"
    by (rule all [rule_format, OF a])
  then have t6: "\<exists>random'. list_all (\<lambda>i. random' i < 26) [0..<20]
         \<and> generateRandomString random' ''ABCDEFGHIJKLMNOPQRSTUVWXYZ'' 20 = ''AAAAAAAAAAAAAAAAAAAA''"
    unfolding r .
  have gs: "\<forall>g. card {ds. (set ds \<subseteq> {..<26} \<and> length ds = 20)
                     \<and> fst (snd (login sqlite example_verify ((!) ds) 1000 example_db
                                    (example_form ''A@b.com'' ''1234''))) =
                         [\<lparr>cookie_name = ''sessionID'', cookie_value = g, cookie_path = ''/''\<rparr>]}
                * 2 ^ 94
              \<le> card {ds::nat list. set ds \<subseteq> {..<26} \<and> length ds = 20}"
    using t by (elim conjE)
  have t8: "card {ds. (set ds \<subseteq> {..<26} \<and> length ds = 20)
              \<and> fst (snd (login sqlite example_verify ((!) ds) 1000 example_db
                             (example_form ''A@b.com'' ''1234''))) =
                  [\<lparr>cookie_name = ''sessionID'', cookie_value = ''DKRYFMTAHOVCJQXELSZG'',
                    cookie_path = ''/''\<rparr>]}
       * 2 ^ 94
     \<le> card {ds::nat list. set ds \<subseteq> {..<26} \<and> length ds = 20}"
    by (rule gs [rule_format])
  have "\<forall>c \<in> set (fst (snd (login sqlite example_verify example_random 1000 example_db
                               (example_form ''A@b.com'' ''1234'')))).
         cookie_name c = ''sessionID'' \<and> cookie_value c = ''DKRYFMTAHOVCJQXELSZG''"
    using t by (elim conjE)
  then have t7: "list_all
      (\<lambda>c. cookie_name c = ''sessionID'' \<and> cookie_value c = ''DKRYFMTAHOVCJQXELSZG'')
      (fst (snd (login sqlite example_verify example_random 1000 example_db
                   (example_form ''A@b.com'' ''1234''))))"
    unfolding list_all_iff .
  show ?thesis
    using g v t0 t1 t2 t3 t5 t6 t8 t7 by (intro conjI)
qed

text \<open>
  C7 (as amended). A login whose email (lower-cased) is the email of a stored user, whose
  password verifies against the stored hash, and whose generated session id is not yet
  in the table \<open>cookie\<close>, creates the session of that user (id, user id, expiry one hour
  after \<open>now\<close>), sets exactly one cookie, named \<open>sessionID\<close>, with the session id as value
  and path \<open>/\<close>, and redirects (302, to \<open>/home\<close>).
\<close>

theorem login_success_session_cookie_redirect:
  assumes "data ''email'' = Some e"
    and "find (\<lambda>u. email u = toLowerCase e) (users_table db) = Some user"
    and "argon2_verify (hashedPassword user) (data ''password'') = Inr True"
    and "cookieID = generateRandomString random ''ABCDEFGHIJKLMNOPQRSTUVWXYZ'' 20"
    and "cookieID \<notin> set (map id_cookie (cookie_table db))"
  shows "login sqlite argon2_verify random now db data =
           (Redirect 302 ''/home'',
            [\<lparr>cookie_name = ''sessionID'', cookie_value = cookieID, cookie_path = ''/''\<rparr>],
            db\<lparr>cookie_table := cookie_table db @
                 [\<lparr>id_cookie = cookieID, userID = id_user user, expireTime = now + 3600000\<rparr>]\<rparr>)"
proof -
  have u: "user \<in> set (users_table db)"
    using assms(2) by (auto simp add: find_Some_iff)
  have g: "getUserByEmail sqlite db (toLowerCase e) =
             Inr (DataSuccess ''User was retrieved successfully'' user)"
    using assms(2) by (simp add: getUserByEmail_sqlite)
  have c: "createCookie sqlite db cookieID (id_user user) now =
     Inr (\<lparr>success = True, message = ''Successful cookie creation''\<rparr>,
          db\<lparr>cookie_table := cookie_table db @
                [\<lparr>id_cookie = cookieID, userID = id_user user, expireTime = now + 3600000\<rparr>]\<rparr>)"
    using assms(5) u by (intro createCookie_sqlite) simp_all
  show ?thesis
    using assms(1,3) g c by (simp add: login_def assms(4) [symmetric])
qed

theorem login_success_session_cookie_redirect_witness:
  "find (\<lambda>u. email u = toLowerCase ''A@b.com'') (users_table example_db_session) = Some example_user
   \<and> example_verify (hashedPassword example_user) (Some ''1234'') = Inr True
   \<and> ''DKRYFMTAHOVCJQXELSZG'' \<notin> set (map id_cookie (cookie_table example_db_session))
   \<and> login sqlite example_verify example_random 1000 example_db_session
        (example_form ''A@b.com'' ''1234'') =
       (Redirect 302 ''/home'',
        [\<lparr>cookie_name = ''sessionID'', cookie_value = ''DKRYFMTAHOVCJQXELSZG'',
          cookie_path = ''/''\<rparr>],
        example_db_session\<lparr>cookie_table := [example_session,
          \<lparr>id_cookie = ''DKRYFMTAHOVCJQXELSZG'', userID = 1, expireTime = 3601000\<rparr>]\<rparr>)"
proof -
  have h1: "example_form ''A@b.com'' ''1234'' ''email'' = Some ''A@b.com''"
    by (rule example_form_fields)
  have h2: "find (\<lambda>u. email u = toLowerCase ''A@b.com'') (users_table example_db_session) =
      Some example_user"
    by (simp add: example_lower example_db_session_def) (simp add: example_user_def)
  have v: "example_verify (hashedPassword example_user) (Some ''1234'') = Inr True"
    by (simp add: example_verify_def example_user_def)
  have h3: "example_verify (hashedPassword example_user)
      (example_form ''A@b.com'' ''1234'' ''password'') = Inr True"
    using v by (simp add: example_form_fields)
  have h4: "''DKRYFMTAHOVCJQXELSZG'' =
      generateRandomString example_random ''ABCDEFGHIJKLMNOPQRSTUVWXYZ'' 20"
    by (simp only: example_cookieID)
  have h5: "''DKRYFMTAHOVCJQXELSZG'' \<notin> set (map id_cookie (cookie_table example_db_session))"
    by (simp add: example_db_session_def example_session_def)
  have i: "id_user example_user = 1"
    by (simp add: example_user_def)
  have t: "login sqlite example_verify example_random 1000 example_db_session
        (example_form ''A@b.com'' ''1234'') =
       (Redirect 302 ''/home'',
        [\<lparr>cookie_name = ''sessionID'', cookie_value = ''DKRYFMTAHOVCJQXELSZG'',
          cookie_path = ''/''\<rparr>],
        example_db_session\<lparr>cookie_table := cookie_table example_db_session @
          [\<lparr>id_cookie = ''DKRYFMTAHOVCJQXELSZG'', userID = id_user example_user,
            expireTime = 1000 + 3600000\<rparr>]\<rparr>)"
    by (rule login_success_session_cookie_redirect
        [where data = "example_form ''A@b.com'' ''1234''" and argon2_verify = example_verify,
          OF h1 h2 h3 h4 h5])
  have d: "example_db_session\<lparr>cookie_table := cookie_table example_db_session @
          [\<lparr>id_cookie = ''DKRYFMTAHOVCJQXELSZG'', userID = id_user example_user,
            expireTime = 1000 + 3600000\<rparr>]\<rparr> =
      example_db_session\<lparr>cookie_table := [example_session,
          \<lparr>id_cookie = ''DKRYFMTAHOVCJQXELSZG'', userID = 1, expireTime = 3601000\<rparr>]\<rparr>"
    by (simp add: i example_db_session_def)
  show ?thesis
    using h2 v h5 t unfolding d by (simp only: simp_thms)
qed

text \<open>
  C7 as stated fails: the email resolves to the stored user and the password verifies,
  but the generated id is already the id of a stored session. The \<open>INSERT\<close> breaks the
  primary key and throws, nothing catches it, and \<open>login\<close> ends with that exception: no
  session is created, no cookie is set and there is no redirect.
\<close>

theorem login_session_id_collision_counterexample:
  "getUserByEmail sqlite example_db_collision (toLowerCase ''A@b.com'') =
     Inr (DataSuccess ''User was retrieved successfully'' example_user)
   \<and> example_verify (hashedPassword example_user) (Some ''1234'') = Inr True
   \<and> login sqlite example_verify example_random 1000 example_db_collision
        (example_form ''A@b.com'' ''1234'') =
       (Thrown (SqliteError ''UNIQUE constraint failed: cookie.id''), [], example_db_collision)"
proof -
  have g: "getUserByEmail sqlite example_db_collision (toLowerCase ''A@b.com'') =
     Inr (DataSuccess ''User was retrieved successfully'' example_user)"
    by (simp add: example_lower getUserByEmail_sqlite example_db_collision_def example_user_def)
  have v: "example_verify (hashedPassword example_user) (Some ''1234'') = Inr True"
    by (simp add: example_verify_def example_user_def)
  have c: "createCookie sqlite example_db_collision ''DKRYFMTAHOVCJQXELSZG''
      (id_user example_user) 1000 = Inl (SqliteError ''UNIQUE constraint failed: cookie.id'')"
    by (simp add: createCookie_def sqlite_def sqlite_cookie_insert_def example_db_collision_def)
  have "login sqlite example_verify example_random 1000 example_db_collision
        (example_form ''A@b.com'' ''1234'') =
       (Thrown (SqliteError ''UNIQUE constraint failed: cookie.id''), [], example_db_collision)"
    using g v c by (simp add: login_def example_form_fields example_cookieID)
  then show ?thesis using g v by (intro conjI)
qed

text \<open>
  C8. On any database, each write of the session store (\<open>createCookie\<close>, \<open>removeCookie\<close>,
  \<open>updateCookie\<close>) whose statement runs and reports \<open>n\<close> changed rows returns, without
  throwing, a response with \<open>success\<close> exactly when \<open>n = 1\<close>; when \<open>n\<close> is not 1 the
  response is a failure with the diagnostic message of the operation. The statement
  runs once: the database returned is the one that single run left.
\<close>

theorem store_write_success_iff_one_change:
  "(cookie_insert D db \<lparr>id_cookie = cid, userID = uid, expireTime = now + 60 * 60 * 1000\<rparr> =
      Inr (n1, db1) \<longrightarrow>
      createCookie D db cid uid now =
        Inr (\<lparr>success = (n1 = 1),
              message = (if n1 = 1 then ''Successful cookie creation''
                         else ''Failed cookie creation'')\<rparr>, db1))
   \<and> (cookie_delete D db cid = Inr (n2, db2) \<longrightarrow>
      removeCookie D db cid =
        Inr (\<lparr>success = (n2 = 1),
              message = (if n2 = 1 then ''Successful cookie deletion''
                         else ''Failed cookie deletion'')\<rparr>, db2))
   \<and> (cookie_update D db (now + 1000 * 30 * 60) cid = Inr (n3, db3) \<longrightarrow>
      updateCookie D db cid now =
        Inr (\<lparr>success = (n3 = 1),
              message = (if n3 = 1 then ''Updated cookie successfully''
                         else ''Failed to update cookie'')\<rparr>, db3))"
  by (simp add: createCookie_def removeCookie_def updateCookie_def)

theorem store_write_success_iff_one_change_witness:
  "cookie_insert sqlite_insert_ignored example_db_session
      \<lparr>id_cookie = ''DKRYFMTAHOVCJQXELSZG'', userID = 1, expireTime = 1000 + 60 * 60 * 1000\<rparr> =
     Inr (0, example_db_session)
   \<and> createCookie sqlite_insert_ignored example_db_session ''DKRYFMTAHOVCJQXELSZG'' 1 1000 =
     Inr (\<lparr>success = False, message = ''Failed cookie creation''\<rparr>, example_db_session)
   \<and> cookie_delete sqlite example_db_session ''DKRYFMTAHOVCJQXELSZG'' = Inr (0, example_db_session)
   \<and> removeCookie sqlite example_db_session ''DKRYFMTAHOVCJQXELSZG'' =
     Inr (\<lparr>success = False, message = ''Failed cookie deletion''\<rparr>, example_db_session)
   \<and> cookie_update sqlite example_db_session (1000 + 1000 * 30 * 60) ''DKRYFMTAHOVCJQXELSZG'' =
     Inr (0, example_db_session)
   \<and> updateCookie sqlite example_db_session ''DKRYFMTAHOVCJQXELSZG'' 1000 =
     Inr (\<lparr>success = False, message = ''Failed to update cookie''\<rparr>, example_db_session)
   \<and> cookie_delete sqlite example_db_session ''QWERTYUIOPASDFGHJKLZ'' = Inr (1, example_db)
   \<and> removeCookie sqlite example_db_session ''QWERTYUIOPASDFGHJKLZ'' =
     Inr (\<lparr>success = True, message = ''Successful cookie deletion''\<rparr>, example_db)"
proof -
  have h1: "cookie_insert sqlite_insert_ignored example_db_session
      \<lparr>id_cookie = ''DKRYFMTAHOVCJQXELSZG'', userID = 1, expireTime = 1000 + 60 * 60 * 1000\<rparr> =
     Inr (0, example_db_session)"
    by (simp add: sqlite_insert_ignored_def)
  have h2: "cookie_delete sqlite example_db_session ''DKRYFMTAHOVCJQXELSZG'' =
      Inr (0, example_db_session)"
    by (simp add: sqlite_def sqlite_cookie_delete_def example_db_session_def example_session_def)
  have h3: "cookie_update sqlite example_db_session (1000 + 1000 * 30 * 60)
      ''DKRYFMTAHOVCJQXELSZG'' = Inr (0, example_db_session)"
    by (simp add: sqlite_def sqlite_cookie_update_def example_db_session_def example_session_def)
  have h4: "cookie_delete sqlite example_db_session ''QWERTYUIOPASDFGHJKLZ'' = Inr (1, example_db)"
    by (simp add: sqlite_def sqlite_cookie_delete_def example_db_session_def example_session_def
        example_db_def)
  have a: "createCookie sqlite_insert_ignored example_db_session ''DKRYFMTAHOVCJQXELSZG'' 1 1000 =
     Inr (\<lparr>success = False, message = ''Failed cookie creation''\<rparr>, example_db_session)"
    using store_write_success_iff_one_change [of sqlite_insert_ignored example_db_session
        "''DKRYFMTAHOVCJQXELSZG''" 1 1000 0 example_db_session] h1
    by simp
  have b: "removeCookie sqlite example_db_session ''DKRYFMTAHOVCJQXELSZG'' =
     Inr (\<lparr>success = False, message = ''Failed cookie deletion''\<rparr>, example_db_session)"
    using store_write_success_iff_one_change [of sqlite example_db_session
        "''DKRYFMTAHOVCJQXELSZG''" 1 1000 0 example_db_session 0 example_db_session] h2
    by simp
  have c: "updateCookie sqlite example_db_session ''DKRYFMTAHOVCJQXELSZG'' 1000 =
     Inr (\<lparr>success = False, message = ''Failed to update cookie''\<rparr>, example_db_session)"
    using store_write_success_iff_one_change [of sqlite example_db_session
        "''DKRYFMTAHOVCJQXELSZG''" 1 1000 0 example_db_session 0 example_db_session
        0 example_db_session] h3
    by simp
  have d: "removeCookie sqlite example_db_session ''QWERTYUIOPASDFGHJKLZ'' =
     Inr (\<lparr>success = True, message = ''Successful cookie deletion''\<rparr>, example_db)"
    using store_write_success_iff_one_change [of sqlite example_db_session
        "''QWERTYUIOPASDFGHJKLZ''" 1 1000 0 example_db_session 1 example_db] h4
    by simp
  show ?thesis
    using h1 h2 h3 h4 a b c d by (simp only: simp_thms)
qed

text \<open>
  C9. Whatever the outcome of \<open>signup\<close> (an exception, the duplicate-email failure, or
  success), the action makes no call of \<open>cookies.set\<close>, on any database, and on the
  SQLite database the table \<open>cookie\<close> after the action is the table before it.
\<close>

theorem signup_creates_no_session_and_sets_no_cookie:
  "fst (snd (signup sqlite argon2_hash db data)) = []
   \<and> cookie_table (snd (snd (signup sqlite argon2_hash db data))) = cookie_table db
   \<and> fst (snd (signup D argon2_hash' db' data')) = []"
  by (simp only: signup_sets_no_cookie signup_sqlite_cookie_table)

theorem signup_creates_no_session_and_sets_no_cookie_witness:
  "signup sqlite example_hash example_db_session (example_form ''New@b.com'' ''pw'') =
     (Returned_undefined, [],
      example_db_session\<lparr>users_table := [example_user,
        \<lparr>firstName = None, lastName = None, email = ''new@b.com'', hashedPassword = ''#pw'',
         id_user = 2\<rparr>]\<rparr>)
   \<and> fst (snd (signup sqlite example_hash example_db_session
                  (example_form ''New@b.com'' ''pw''))) = []
   \<and> cookie_table (snd (snd (signup sqlite example_hash example_db_session
                  (example_form ''New@b.com'' ''pw'')))) = [example_session]
   \<and> signup sqlite example_hash example_db_session (example_form ''A@B.COM'' ''pw'') =
     (ActionFailure 422 ''Email already in use'', [], example_db_session)
   \<and> signup sqlite example_hash example_db_session (\<lambda>k. None) =
     (Thrown (Argon2Error ''password must be a string''), [], example_db_session)"
proof -
  have c: "cookie_table example_db_session = [example_session]"
    by (simp add: example_db_session_def)
  have h: "example_hash (Some ''pw'') 2 = Inr ''#pw''" "example_hash None 2 =
      Inl (Argon2Error ''password must be a string'')"
    by (simp_all add: example_hash_def)
  have s1: "signup sqlite example_hash example_db_session (example_form ''New@b.com'' ''pw'') =
     (Returned_undefined, [],
      example_db_session\<lparr>users_table := [example_user,
        \<lparr>firstName = None, lastName = None, email = ''new@b.com'', hashedPassword = ''#pw'',
         id_user = 2\<rparr>]\<rparr>)"
    by (simp add: signup_def example_form_fields h example_lower createUser_sqlite
        example_db_session_def example_user_def next_rowid_def)
  have s2: "signup sqlite example_hash example_db_session (example_form ''A@B.COM'' ''pw'') =
     (ActionFailure 422 ''Email already in use'', [], example_db_session)"
    by (simp add: signup_def example_form_fields h example_lower createUser_sqlite)
      (simp add: example_db_session_def example_user_def)
  have s3: "signup sqlite example_hash example_db_session (\<lambda>k. None) =
     (Thrown (Argon2Error ''password must be a string''), [], example_db_session)"
    by (simp add: signup_def h)
  show ?thesis
    using signup_creates_no_session_and_sets_no_cookie [of example_hash example_db_session
        "example_form ''New@b.com'' ''pw''" sqlite example_hash example_db_session
        "example_form ''New@b.com'' ''pw''"] c s1 s2 s3
    by (simp only: simp_thms)
qed



end
